theory Spec2Isabelle
  imports Complex_Main "HOL-Library.Sublist"
begin

section \<open>JavaScript values\<close>

text \<open>
  The storage code of \<^verbatim>\<open>src/utils/index.ts\<close> handles whatever \<^verbatim>\<open>JSON.parse\<close> returns: its
  TypeScript types are unchecked casts. The model therefore works on untyped JavaScript
  values. A valid \<^verbatim>\<open>Date\<close> is represented by its \<^verbatim>\<open>toISOString()\<close> text. A number is a
  rational: clock readings in milliseconds and byte counts, which are integers, are the
  only numbers the code computes with, and any other number (a confidence) is only
  carried along. An object is the list of its own properties in their order.
\<close>

datatype date = Date string | Invalid_Date

datatype jsval =
    Undefined
  | Null
  | Bool bool
  | Num rat
  | Str string
  | DateV date
  | Arr "jsval list"
  | Obj "(string \<times> jsval) list"

datatype js_error = TypeError

text \<open>A string as \<^verbatim>\<open>localStorage\<close> holds it or as a caller passes it to \<^verbatim>\<open>JSON.parse\<close>:
  either a JSON text, identified with the value it denotes (white space and indentation
  are not part of that value), or a string on which \<^verbatim>\<open>JSON.parse\<close> throws.\<close>

datatype json_text = JSON_of jsval | Malformed string

text \<open>What the engine decides and the program does not: the byte length of a string in a
  \<^verbatim>\<open>Blob\<close>, the date denoted by anything but \<^verbatim>\<open>undefined\<close>, \<^verbatim>\<open>null\<close>, a \<^verbatim>\<open>Date\<close> or an ISO
  text in UTC, and the number a non-number converts to in a comparison.\<close>

record platform =
  Blob_size :: "json_text \<Rightarrow> nat"
  Date_other :: "jsval \<Rightarrow> date"
  ToNumber_other :: "jsval \<Rightarrow> rat option"

fun truthy :: "jsval \<Rightarrow> bool" where
  "truthy Undefined = False"
| "truthy Null = False"
| "truthy (Bool b) = b"
| "truthy (Num n) = (n \<noteq> 0)"
| "truthy (Str s) = (s \<noteq> [])"
| "truthy (DateV d) = True"
| "truthy (Arr xs) = True"
| "truthy (Obj fs) = True"

text \<open>Reading \<^verbatim>\<open>v.k\<close>, for the property names the program reads (none of them is a
  built-in property): a \<^verbatim>\<open>TypeError\<close> on \<^verbatim>\<open>null\<close> and \<^verbatim>\<open>undefined\<close>, \<^verbatim>\<open>undefined\<close> when
  the property is missing.\<close>

fun get_prop :: "jsval \<Rightarrow> string \<Rightarrow> js_error + jsval" where
  "get_prop Undefined k = Inl TypeError"
| "get_prop Null k = Inl TypeError"
| "get_prop (Obj fs) k = Inr (case map_of fs k of Some v \<Rightarrow> v | None \<Rightarrow> Undefined)"
| "get_prop v k = Inr Undefined"

definition digit :: "nat \<Rightarrow> char" where
  "digit n = char_of (48 + n)"

fun string_of_nat :: "nat \<Rightarrow> string" where
  "string_of_nat n =
     (if n < 10 then [digit n] else string_of_nat (n div 10) @ [digit (n mod 10)])"

declare string_of_nat.simps [simp del]

text \<open>The own enumerable properties that a spread \<^verbatim>\<open>{...v}\<close> copies.\<close>

fun own_props :: "jsval \<Rightarrow> (string \<times> jsval) list" where
  "own_props (Obj fs) = fs"
| "own_props (Arr xs) = zip (map string_of_nat [0..<length xs]) xs"
| "own_props (Str s) = zip (map string_of_nat [0..<length s]) (map (\<lambda>c. Str [c]) s)"
| "own_props v = []"

text \<open>Writing a property, as in \<^verbatim>\<open>{...o, k: v}\<close> or \<^verbatim>\<open>o.k = v\<close>: an existing property
  keeps its place, a new one goes last.\<close>

fun set_prop :: "(string \<times> jsval) list \<Rightarrow> string \<Rightarrow> jsval \<Rightarrow> (string \<times> jsval) list" where
  "set_prop [] k v = [(k, v)]"
| "set_prop ((k', v') # fs) k v =
     (if k' = k then (k, v) # fs else (k', v') # set_prop fs k v)"

subsection \<open>Dates\<close>

definition is_digit :: "char \<Rightarrow> bool" where
  "is_digit c = (48 \<le> (of_char c :: nat) \<and> (of_char c :: nat) \<le> 57)"

definition number_of :: "string \<Rightarrow> nat" where
  "number_of s = foldl (\<lambda>n c. 10 * n + ((of_char c :: nat) - 48)) 0 s"

definition leap_year :: "nat \<Rightarrow> bool" where
  "leap_year y = (y mod 4 = 0 \<and> (y mod 100 \<noteq> 0 \<or> y mod 400 = 0))"

definition days_in_month :: "nat \<Rightarrow> nat \<Rightarrow> nat" where
  "days_in_month y m =
     (if m = 2 then (if leap_year y then 29 else 28)
      else if m = 4 \<or> m = 6 \<or> m = 9 \<or> m = 11 then 30 else 31)"

text \<open>The text \<^verbatim>\<open>YYYY-MM-DDTHH:mm:ss.sssZ\<close> of a calendar date, the format that
  \<^verbatim>\<open>toISOString\<close> writes for the years 0 to 9999.\<close>

definition iso_utc :: "string \<Rightarrow> bool" where
  "iso_utc s =
     (length s = 24
      \<and> list_all is_digit (take 4 s) \<and> s ! 4 = CHR ''-''
      \<and> list_all is_digit (take 2 (drop 5 s)) \<and> s ! 7 = CHR ''-''
      \<and> list_all is_digit (take 2 (drop 8 s)) \<and> s ! 10 = CHR ''T''
      \<and> list_all is_digit (take 2 (drop 11 s)) \<and> s ! 13 = CHR '':''
      \<and> list_all is_digit (take 2 (drop 14 s)) \<and> s ! 16 = CHR '':''
      \<and> list_all is_digit (take 2 (drop 17 s)) \<and> s ! 19 = CHR ''.''
      \<and> list_all is_digit (take 3 (drop 20 s)) \<and> s ! 23 = CHR ''Z''
      \<and> 1 \<le> number_of (take 2 (drop 5 s)) \<and> number_of (take 2 (drop 5 s)) \<le> 12
      \<and> 1 \<le> number_of (take 2 (drop 8 s))
      \<and> number_of (take 2 (drop 8 s))
          \<le> days_in_month (number_of (take 4 s)) (number_of (take 2 (drop 5 s)))
      \<and> number_of (take 2 (drop 11 s)) \<le> 23
      \<and> number_of (take 2 (drop 14 s)) \<le> 59
      \<and> number_of (take 2 (drop 17 s)) \<le> 59)"

text \<open>\<^verbatim>\<open>new Date(v)\<close>.\<close>

fun new_Date :: "platform \<Rightarrow> jsval \<Rightarrow> date" where
  "new_Date P Undefined = Invalid_Date"
| "new_Date P Null = Date ''1970-01-01T00:00:00.000Z''"
| "new_Date P (DateV d) = d"
| "new_Date P (Str s) = (if iso_utc s then Date s else Date_other P (Str s))"
| "new_Date P v = Date_other P v"

subsection \<open>JSON\<close>

text \<open>The value that \<^verbatim>\<open>JSON.stringify\<close> serialises: a date becomes its ISO text
  (\<^verbatim>\<open>null\<close> when invalid), a property holding \<^verbatim>\<open>undefined\<close> is left out, and an array
  element \<^verbatim>\<open>undefined\<close> becomes \<^verbatim>\<open>null\<close>.\<close>

primrec toJSON :: "jsval \<Rightarrow> jsval" where
  "toJSON Undefined = Undefined"
| "toJSON Null = Null"
| "toJSON (Bool b) = Bool b"
| "toJSON (Num n) = Num n"
| "toJSON (Str s) = Str s"
| "toJSON (DateV d) = (case d of Date s \<Rightarrow> Str s | Invalid_Date \<Rightarrow> Null)"
| "toJSON (Arr xs) = Arr (map (\<lambda>x. if x = Undefined then Null else x) (map toJSON xs))"
| "toJSON (Obj fs) =
     Obj (filter (\<lambda>kv. snd kv \<noteq> Undefined) (map (map_prod id toJSON) fs))"

text \<open>\<^verbatim>\<open>JSON.stringify(v)\<close>, also with an indentation argument. For \<^verbatim>\<open>undefined\<close> it returns
  \<^verbatim>\<open>undefined\<close>, which a string context turns into a text that is not JSON.\<close>

definition JSON_stringify :: "jsval \<Rightarrow> json_text" where
  "JSON_stringify v =
     (case toJSON v of Undefined \<Rightarrow> Malformed ''undefined'' | j \<Rightarrow> JSON_of j)"

text \<open>\<^verbatim>\<open>JSON.parse(s)\<close>; \<open>None\<close> is the \<^verbatim>\<open>SyntaxError\<close>.\<close>

fun JSON_parse :: "json_text \<Rightarrow> jsval option" where
  "JSON_parse (JSON_of v) = Some v"
| "JSON_parse (Malformed s) = None"

section \<open>StorageUtils\<close>

type_synonym storage = "string \<rightharpoonup> json_text"

definition key_prefix :: string where
  "key_prefix = ''tonebridge_''"

text \<open>\<^verbatim>\<open>StorageUtils.set(key, value, expiresIn)\<close> at clock reading \<open>now\<close>.
  \<^verbatim>\<open>localStorage.setItem\<close> is taken to succeed: the quota of the browser is not modelled.\<close>

definition StorageUtils_set :: "int \<Rightarrow> string \<Rightarrow> jsval \<Rightarrow> int option \<Rightarrow> storage \<Rightarrow> storage" where
  "StorageUtils_set now key v expiresIn ls =
     (let item = Obj [(''value'', v),
                      (''timestamp'', Num (of_int now)),
                      (''expiresAt'',
                         (case expiresIn of
                            None \<Rightarrow> Undefined
                          | Some e \<Rightarrow> if e \<noteq> 0 then Num (of_int (now + e)) else Undefined))]
      in ls(key_prefix @ key \<mapsto> JSON_stringify item))"

text \<open>The comparison \<^verbatim>\<open>Date.now() > x\<close>.\<close>

definition now_after :: "platform \<Rightarrow> int \<Rightarrow> jsval \<Rightarrow> bool" where
  "now_after P now x =
     (case x of
        Num n \<Rightarrow> of_int now > n
      | Bool b \<Rightarrow> now > (if b then 1 else 0)
      | Null \<Rightarrow> now > 0
      | Undefined \<Rightarrow> False
      | _ \<Rightarrow> (case ToNumber_other P x of None \<Rightarrow> False | Some n \<Rightarrow> of_int now > n))"

text \<open>\<^verbatim>\<open>StorageUtils.get(key)\<close>: the value read and the storage, from which an expired item
  has been removed. Everything thrown after \<^verbatim>\<open>getItem\<close> is caught and gives \<^verbatim>\<open>null\<close>.\<close>

definition StorageUtils_get :: "platform \<Rightarrow> int \<Rightarrow> string \<Rightarrow> storage \<Rightarrow> jsval \<times> storage" where
  "StorageUtils_get P now key ls =
     (case ls (key_prefix @ key) of
        None \<Rightarrow> (Null, ls)
      | Some item \<Rightarrow>
          if item = Malformed [] then (Null, ls)
          else
            (case JSON_parse item of
               None \<Rightarrow> (Null, ls)
             | Some parsed \<Rightarrow>
                 (case get_prop parsed ''expiresAt'' of
                    Inl e \<Rightarrow> (Null, ls)
                  | Inr expiresAt \<Rightarrow>
                      if truthy expiresAt \<and> now_after P now expiresAt
                      then (Null, ls(key_prefix @ key := None))
                      else (case get_prop parsed ''value'' of
                              Inl e \<Rightarrow> (Null, ls)
                            | Inr v \<Rightarrow> (v, ls)))))"

definition StorageUtils_remove :: "string \<Rightarrow> storage \<Rightarrow> storage" where
  "StorageUtils_remove key ls = ls(key_prefix @ key := None)"

subsection \<open>Settings\<close>

definition default_displayMode :: jsval where
  "default_displayMode =
     Obj [(''id'', Str ''combined''),
          (''name'', Str ''Combined''),
          (''description'', Str ''Show both emojis and tags''),
          (''icon'', Str ''heartOutline'')]"

text \<open>The literal that \<^verbatim>\<open>StorageUtils.getSettings\<close> and
  \<^verbatim>\<open>DailyStorageManager.getDefaultSettings\<close> both return.\<close>

definition default_settings :: jsval where
  "default_settings =
     Obj [(''theme'', Str ''modern-blue''),
          (''fontSize'', Str ''medium''),
          (''showEmojis'', Bool True),
          (''showTags'', Bool True),
          (''autoSave'', Bool True),
          (''displayMode'', default_displayMode),
          (''accessibility'',
             Obj [(''reducedMotion'', Bool False), (''dyslexiaFriendly'', Bool False)])]"

definition StorageUtils_saveSettings :: "int \<Rightarrow> jsval \<Rightarrow> storage \<Rightarrow> storage" where
  "StorageUtils_saveSettings now settings ls = StorageUtils_set now ''settings'' settings None ls"

text \<open>\<^verbatim>\<open>StorageUtils.getSettings()\<close>. A truthy value is neither \<^verbatim>\<open>null\<close> nor \<^verbatim>\<open>undefined\<close>,
  so reading its \<^verbatim>\<open>displayMode\<close> does not throw.\<close>

definition StorageUtils_getSettings :: "platform \<Rightarrow> int \<Rightarrow> storage \<Rightarrow> jsval \<times> storage" where
  "StorageUtils_getSettings P now ls =
     (let (savedSettings, ls') = StorageUtils_get P now ''settings'' ls
      in if \<not> truthy savedSettings then (default_settings, ls')
         else (case get_prop savedSettings ''displayMode'' of
                 Inl e \<Rightarrow> (savedSettings, ls')
               | Inr displayMode \<Rightarrow>
                   if \<not> truthy displayMode
                   then (let migratedSettings =
                               Obj (set_prop (own_props savedSettings)
                                      ''displayMode'' default_displayMode)
                         in (migratedSettings,
                             StorageUtils_saveSettings now migratedSettings ls'))
                   else (savedSettings, ls')))"

section \<open>DailyStorageManager\<close>

definition STORAGE_KEY :: string where
  "STORAGE_KEY = ''daily_data''"

text \<open>The assignment \<^verbatim>\<open>o.k = v\<close> in a module (strict mode): it throws on \<^verbatim>\<open>null\<close>,
  \<^verbatim>\<open>undefined\<close> and primitives. A named property put on an array or a date is not
  tracked: \<^verbatim>\<open>JSON.stringify\<close> does not write it.\<close>

fun assign_prop :: "jsval \<Rightarrow> string \<Rightarrow> jsval \<Rightarrow> js_error + jsval" where
  "assign_prop (Obj fs) k v = Inr (Obj (set_prop fs k v))"
| "assign_prop (Arr xs) k v = Inr (Arr xs)"
| "assign_prop (DateV d) k v = Inr (DateV d)"
| "assign_prop x k v = Inl TypeError"

text \<open>\<^verbatim>\<open>calculateStorageSize(data)\<close>.\<close>

definition calculateStorageSize :: "platform \<Rightarrow> jsval \<Rightarrow> nat" where
  "calculateStorageSize P data = Blob_size P (JSON_stringify data)"

text \<open>\<^verbatim>\<open>saveData(data)\<close> updates \<^verbatim>\<open>data.metadata\<close> in place and then stores \<^verbatim>\<open>data\<close>: the
  result is the object as the caller sees it afterwards, and the storage. The size is
  computed between the two assignments.\<close>

definition saveData :: "platform \<Rightarrow> int \<Rightarrow> jsval \<Rightarrow> storage \<Rightarrow> js_error + (jsval \<times> storage)" where
  "saveData P now data ls =
     (case data of
        Obj fs \<Rightarrow>
          (case assign_prop (case map_of fs ''metadata'' of Some m \<Rightarrow> m | None \<Rightarrow> Undefined)
                  ''lastUpdated'' (Num (of_int now)) of
             Inl e \<Rightarrow> Inl e
           | Inr m1 \<Rightarrow>
               (let data1 = Obj (set_prop fs ''metadata'' m1);
                    storageSize = calculateStorageSize P data1
                in (case assign_prop m1 ''storageSize'' (Num (of_nat storageSize)) of
                      Inl e \<Rightarrow> Inl e
                    | Inr m2 \<Rightarrow>
                        (let data2 = Obj (set_prop fs ''metadata'' m2)
                         in Inr (data2, StorageUtils_set now STORAGE_KEY data2 None ls)))))
      | _ \<Rightarrow> Inl TypeError)"

text \<open>\<^verbatim>\<open>getCurrentData()\<close> at clock reading \<open>now\<close>, whose UTC calendar date is \<open>today\<close>
  (\<^verbatim>\<open>getCurrentDate()\<close>).\<close>

definition getCurrentData ::
    "platform \<Rightarrow> int \<Rightarrow> string \<Rightarrow> storage \<Rightarrow> js_error + (jsval \<times> storage)" where
  "getCurrentData P now today ls =
     (let (stored, ls') = StorageUtils_get P now STORAGE_KEY ls
      in if \<not> truthy stored \<or> get_prop stored ''date'' \<noteq> Inr (Str today)
         then (let newData =
                     Obj [(''date'', Str today),
                          (''settings'', default_settings),
                          (''transcripts'', Arr []),
                          (''metadata'',
                             Obj [(''lastUpdated'', Num (of_int now)),
                                  (''storageSize'', Num 0),
                                  (''transcriptCount'', Num 0),
                                  (''themeLastChanged'', Num (of_int now))])]
               in saveData P now newData ls')
         else (case get_prop stored ''settings'' of
                 Inl e \<Rightarrow> Inl e
               | Inr settings \<Rightarrow>
                   if truthy settings
                   then (case get_prop settings ''displayMode'' of
                           Inl e \<Rightarrow> Inl e
                         | Inr displayMode \<Rightarrow>
                             if \<not> truthy displayMode
                             then (let migratedData =
                                         Obj (set_prop (own_props stored) ''settings''
                                                (Obj (set_prop (own_props settings)
                                                        ''displayMode'' default_displayMode)))
                                   in saveData P now migratedData ls')
                             else Inr (stored, ls'))
                   else Inr (stored, ls')))"

text \<open>\<^verbatim>\<open>resetDailyData()\<close>, which the midnight timer runs.\<close>

definition resetDailyData ::
    "platform \<Rightarrow> int \<Rightarrow> string \<Rightarrow> storage \<Rightarrow> js_error + storage" where
  "resetDailyData P now today ls =
     (case getCurrentData P now today ls of
        Inl e \<Rightarrow> Inl e
      | Inr (data, ls') \<Rightarrow>
          (case get_prop data ''metadata'' of
             Inl e \<Rightarrow> Inl e
           | Inr metadata \<Rightarrow>
               (let newData =
                      Obj (set_prop
                             (set_prop (set_prop (own_props data) ''date'' (Str today))
                                ''transcripts'' (Arr []))
                             ''metadata''
                             (Obj (set_prop
                                     (set_prop
                                        (set_prop (own_props metadata)
                                           ''transcriptCount'' (Num 0))
                                        ''storageSize'' (Num 0))
                                     ''lastUpdated'' (Num (of_int now)))))
                in (case saveData P now newData ls' of
                      Inl e \<Rightarrow> Inl e
                    | Inr (saved, ls'') \<Rightarrow> Inr ls''))))"

section \<open>TranscriptStorageManager\<close>

definition TRANSCRIPTS_KEY :: string where
  "TRANSCRIPTS_KEY = ''transcripts''"

definition MAX_TRANSCRIPTS :: nat where
  "MAX_TRANSCRIPTS = 1000"

definition MAX_STORAGE_SIZE :: nat where
  "MAX_STORAGE_SIZE = 5 * 1024 * 1024"

text \<open>The callback of both \<^verbatim>\<open>map\<close> calls,
  \<^verbatim>\<open>segment => ({...segment, timestamp: new Date(segment.timestamp)})\<close>.\<close>

definition with_Date :: "platform \<Rightarrow> jsval \<Rightarrow> js_error + jsval" where
  "with_Date P segment =
     (case get_prop segment ''timestamp'' of
        Inl e \<Rightarrow> Inl e
      | Inr t \<Rightarrow> Inr (Obj (set_prop (own_props segment) ''timestamp'' (DateV (new_Date P t)))))"

text \<open>\<^verbatim>\<open>xs.map(f)\<close> for a callback that may throw: the first exception ends the call.\<close>

fun map_throwing :: "('a \<Rightarrow> js_error + 'b) \<Rightarrow> 'a list \<Rightarrow> js_error + 'b list" where
  "map_throwing f [] = Inr []"
| "map_throwing f (x # xs) =
     (case f x of
        Inl e \<Rightarrow> Inl e
      | Inr y \<Rightarrow> (case map_throwing f xs of Inl e \<Rightarrow> Inl e | Inr ys \<Rightarrow> Inr (y # ys)))"

definition getTranscripts :: "platform \<Rightarrow> int \<Rightarrow> storage \<Rightarrow> jsval list \<times> storage" where
  "getTranscripts P now ls =
     (let (stored, ls') = StorageUtils_get P now TRANSCRIPTS_KEY ls
      in if \<not> truthy stored then ([], ls')
         else (case stored of
                 Arr xs \<Rightarrow>
                   (case map_throwing (with_Date P) xs of
                      Inl e \<Rightarrow> ([], ls')
                    | Inr segments \<Rightarrow> (segments, ls'))
               | _ \<Rightarrow> ([], ls')))"

text \<open>\<^verbatim>\<open>xs.slice(-n)\<close> for a positive \<open>n\<close>.\<close>

definition slice_last :: "nat \<Rightarrow> 'a list \<Rightarrow> 'a list" where
  "slice_last n xs = drop (length xs - n) xs"

text \<open>The loop of \<^verbatim>\<open>reduceTranscriptsToFit\<close>: while the list is not empty, stop when it
  fits, else drop its first element.\<close>

fun reduceTranscriptsToFit :: "platform \<Rightarrow> jsval list \<Rightarrow> jsval list" where
  "reduceTranscriptsToFit P [] = []"
| "reduceTranscriptsToFit P (x # xs) =
     (if Blob_size P (JSON_stringify (Arr (x # xs))) \<le> MAX_STORAGE_SIZE then x # xs
      else reduceTranscriptsToFit P xs)"

definition saveTranscripts :: "platform \<Rightarrow> int \<Rightarrow> jsval list \<Rightarrow> storage \<Rightarrow> storage" where
  "saveTranscripts P now transcripts ls =
     (let limitedTranscripts = slice_last MAX_TRANSCRIPTS transcripts;
          storageSize = Blob_size P (JSON_stringify (Arr limitedTranscripts))
      in if storageSize > MAX_STORAGE_SIZE
         then StorageUtils_set now TRANSCRIPTS_KEY
                (Arr (reduceTranscriptsToFit P limitedTranscripts)) None ls
         else StorageUtils_set now TRANSCRIPTS_KEY (Arr limitedTranscripts) None ls)"

definition addTranscript :: "platform \<Rightarrow> int \<Rightarrow> jsval \<Rightarrow> storage \<Rightarrow> storage" where
  "addTranscript P now transcript ls =
     (let (transcripts, ls') = getTranscripts P now ls
      in saveTranscripts P now (transcripts @ [transcript]) ls')"

definition addTranscripts :: "platform \<Rightarrow> int \<Rightarrow> jsval list \<Rightarrow> storage \<Rightarrow> storage" where
  "addTranscripts P now newTranscripts ls =
     (let (transcripts, ls') = getTranscripts P now ls
      in saveTranscripts P now (transcripts @ newTranscripts) ls')"

definition clearTranscripts :: "storage \<Rightarrow> storage" where
  "clearTranscripts ls = StorageUtils_remove TRANSCRIPTS_KEY ls"


definition importTranscripts :: "platform \<Rightarrow> int \<Rightarrow> json_text \<Rightarrow> storage \<Rightarrow> bool \<times> storage" where
  "importTranscripts P now jsonData ls =
     (case JSON_parse jsonData of
        None \<Rightarrow> (False, ls)
      | Some imported \<Rightarrow>
          (case imported of
             Arr xs \<Rightarrow>
               (case map_throwing (with_Date P) xs of
                  Inl e \<Rightarrow> (False, ls)
                | Inr validatedTranscripts \<Rightarrow>
                    (True, saveTranscripts P now validatedTranscripts ls))
           | _ \<Rightarrow> (False, ls)))"

subsection \<open>What is persisted, and the calls that persist\<close>

text \<open>An array element as \<^verbatim>\<open>JSON.stringify\<close> writes it.\<close>

definition json_element :: "jsval \<Rightarrow> jsval" where
  "json_element x = (if toJSON x = Undefined then Null else toJSON x)"

text \<open>The array under \<^verbatim>\<open>value\<close> in the item stored at \<^verbatim>\<open>tonebridge_transcripts\<close>.\<close>

definition persisted_transcripts :: "storage \<Rightarrow> jsval list option" where
  "persisted_transcripts ls =
     (case ls (key_prefix @ TRANSCRIPTS_KEY) of
        Some (JSON_of (Obj item)) \<Rightarrow>
          (case map_of item ''value'' of Some (Arr xs) \<Rightarrow> Some xs | _ \<Rightarrow> None)
      | _ \<Rightarrow> None)"

text \<open>The three entry points that write the transcripts, and a run of such calls, each at
  its own clock reading. \<open>call_input\<close> is the sequence that the call hands to
  \<^verbatim>\<open>saveTranscripts\<close>.\<close>

datatype call = SaveTranscripts "jsval list" | AddTranscript jsval | AddTranscripts "jsval list"

fun perform :: "platform \<Rightarrow> int \<Rightarrow> call \<Rightarrow> storage \<Rightarrow> storage" where
  "perform P now (SaveTranscripts ts) ls = saveTranscripts P now ts ls"
| "perform P now (AddTranscript t) ls = addTranscript P now t ls"
| "perform P now (AddTranscripts ts) ls = addTranscripts P now ts ls"

fun call_input :: "platform \<Rightarrow> int \<Rightarrow> call \<Rightarrow> storage \<Rightarrow> jsval list" where
  "call_input P now (SaveTranscripts ts) ls = ts"
| "call_input P now (AddTranscript t) ls = fst (getTranscripts P now ls) @ [t]"
| "call_input P now (AddTranscripts ts) ls = fst (getTranscripts P now ls) @ ts"

fun perform_all :: "platform \<Rightarrow> (int \<times> call) list \<Rightarrow> storage \<Rightarrow> storage" where
  "perform_all P [] ls = ls"
| "perform_all P ((now, c) # cs) ls = perform_all P cs (perform P now c ls)"

text \<open>The two bounds of \<^verbatim>\<open>saveTranscripts\<close>: the count, and the byte size of the
  serialisation unless nothing is left.\<close>

definition within_limits :: "platform \<Rightarrow> jsval list \<Rightarrow> bool" where
  "within_limits P xs =
     (length xs \<le> MAX_TRANSCRIPTS
      \<and> (xs = [] \<or> Blob_size P (JSON_stringify (Arr xs)) \<le> MAX_STORAGE_SIZE))"

text \<open>The list that \<^verbatim>\<open>saveTranscripts\<close> hands to \<^verbatim>\<open>StorageUtils.set\<close>.\<close>

definition kept_by_save :: "platform \<Rightarrow> jsval list \<Rightarrow> jsval list" where
  "kept_by_save P ts =
     (if Blob_size P (JSON_stringify (Arr (slice_last MAX_TRANSCRIPTS ts))) > MAX_STORAGE_SIZE
      then reduceTranscriptsToFit P (slice_last MAX_TRANSCRIPTS ts)
      else slice_last MAX_TRANSCRIPTS ts)"

text \<open>The text of an item that holds the JSON value \<open>v\<close>, written at time \<open>t\<close> without
  an expiry: what \<^verbatim>\<open>StorageUtils.set(key, v)\<close> stores.\<close>

definition item_of :: "jsval \<Rightarrow> int \<Rightarrow> json_text" where
  "item_of v t = JSON_of (Obj [(''value'', v), (''timestamp'', Num (of_int t))])"

text \<open>The \<^verbatim>\<open>value\<close> of the item stored under a key.\<close>

definition stored_value :: "storage \<Rightarrow> string \<Rightarrow> jsval option" where
  "stored_value ls key =
     (case ls (key_prefix @ key) of
        Some (JSON_of (Obj item)) \<Rightarrow> map_of item ''value''
      | _ \<Rightarrow> None)"

text \<open>A property of a value that is neither \<^verbatim>\<open>null\<close> nor \<^verbatim>\<open>undefined\<close>, for use in
  statements.\<close>

definition field :: "jsval \<Rightarrow> string \<Rightarrow> jsval" where
  "field v k = (case get_prop v k of Inr x \<Rightarrow> x | Inl e \<Rightarrow> Undefined)"



text \<open>\<^verbatim>\<open>Array.isArray(v)\<close>.\<close>

definition is_array :: "jsval \<Rightarrow> bool" where
  "is_array v = (case v of Arr xs \<Rightarrow> True | _ \<Rightarrow> False)"

section \<open>ApiUtils.request\<close>

definition maxRetries :: nat where
  "maxRetries = 3"

definition retryDelay :: nat where
  "retryDelay = 1000"

text \<open>What one \<^verbatim>\<open>fetch\<close> does: it rejects with an error of some message (no connection,
  the abort of the timeout), or it resolves with a response. Reading the body as text or
  as JSON may throw in turn.\<close>

record response =
  status :: nat
  statusText :: string
  text_body :: "string + string"
  json_body :: "string + jsval"

datatype fetch_outcome = Rejects string | Responds response

definition response_ok :: "response \<Rightarrow> bool" where
  "response_ok r = (200 \<le> status r \<and> status r \<le> 299)"

text \<open>\<^verbatim>\<open>message.includes(sub)\<close>.\<close>

fun js_includes :: "string \<Rightarrow> string \<Rightarrow> bool" where
  "js_includes [] sub = (sub = [])"
| "js_includes (c # cs) sub = (prefix sub (c # cs) \<or> js_includes cs sub)"

text \<open>The error thrown for a response that is not ok.\<close>

definition http_error :: "response \<Rightarrow> string \<Rightarrow> string" where
  "http_error r errorText =
     (if status r = 0 then ''Network error - check your connection and try again''
      else if status r = 404
        then ''API endpoint not found - please check the server configuration''
      else if status r = 413
        then ''Audio file too large - please record a shorter message''
      else if status r = 500 then ''Server error - please try again later''
      else if status r = 503
        then ''Service temporarily unavailable - please try again later''
      else ''Server error ('' @ string_of_nat (status r) @ ''): ''
             @ (if errorText \<noteq> [] then errorText else statusText r))"

text \<open>The \<^verbatim>\<open>try\<close> block of one attempt: the data returned, or the message of the error
  caught.\<close>

definition attempt_result :: "fetch_outcome \<Rightarrow> string + jsval" where
  "attempt_result outcome =
     (case outcome of
        Rejects message \<Rightarrow> Inl message
      | Responds r \<Rightarrow>
          if \<not> response_ok r
          then (case text_body r of
                  Inl message \<Rightarrow> Inl message
                | Inr errorText \<Rightarrow> Inl (http_error r errorText))
          else json_body r)"

text \<open>``Don't retry on certain errors''.\<close>

definition no_retry :: "string \<Rightarrow> bool" where
  "no_retry message =
     (js_includes message ''abort''
      \<or> js_includes message ''signal is aborted''
      \<or> js_includes message ''Network error''
      \<or> js_includes message ''API endpoint not found'')"

datatype event = Fetch nat | Wait nat

text \<open>The \<^verbatim>\<open>for\<close> loop from \<open>attempt\<close> on: how it ends (the data returned, or
  \<^verbatim>\<open>lastError\<close> when the loop is left), and the fetches and waits in their order.
  \<open>fetch n\<close> is what the \<open>n\<close>-th fetch does.\<close>

function attempts_from ::
    "(nat \<Rightarrow> fetch_outcome) \<Rightarrow> nat \<Rightarrow> string option \<Rightarrow> (string option + jsval) \<times> event list" where
  "attempts_from fetch attempt lastError =
     (if attempt \<le> maxRetries
      then (case attempt_result (fetch attempt) of
              Inr data \<Rightarrow> (Inr data, [Fetch attempt])
            | Inl message \<Rightarrow>
                if no_retry message then (Inl (Some message), [Fetch attempt])
                else if attempt < maxRetries
                then apsnd (\<lambda>tr. Fetch attempt # Wait (retryDelay * attempt) # tr)
                       (attempts_from fetch (attempt + 1) (Some message))
                else apsnd (\<lambda>tr. Fetch attempt # tr)
                       (attempts_from fetch (attempt + 1) (Some message)))
      else (Inl lastError, []))"
  by pat_completeness auto
termination
  by (relation "measure (\<lambda>(fetch, attempt, lastError). maxRetries + 1 - attempt)") auto

declare attempts_from.simps [simp del]

text \<open>The message of the error that \<^verbatim>\<open>request\<close> throws after the loop.\<close>

definition errorMessage :: "string option \<Rightarrow> string" where
  "errorMessage lastError =
     (case lastError of
        None \<Rightarrow> ''API request failed''
      | Some message \<Rightarrow>
          if js_includes message ''Failed to fetch''
          then ''Cannot connect to server. Please check your internet connection and try again.''
          else if js_includes message ''abort'' \<or> js_includes message ''signal is aborted''
          then ''Request timed out. The server is taking longer than expected to process your audio. Please try again.''
          else if js_includes message ''Network error''
          then ''Network connection issue. Please check your connection and try again.''
          else message)"

text \<open>\<^verbatim>\<open>ApiUtils.request\<close>: the data returned or the message of the error thrown, and what
  it did on the way.\<close>

definition request :: "(nat \<Rightarrow> fetch_outcome) \<Rightarrow> (string + jsval) \<times> event list" where
  "request fetch =
     (case attempts_from fetch 1 None of
        (Inr data, tr) \<Rightarrow> (Inr data, tr)
      | (Inl lastError, tr) \<Rightarrow> (Inl (errorMessage lastError), tr))"

text \<open>The numbers of the attempts made, and the waits in milliseconds, in their order.\<close>

definition fetches :: "event list \<Rightarrow> nat list" where
  "fetches tr = concat (map (\<lambda>e. case e of Fetch n \<Rightarrow> [n] | Wait d \<Rightarrow> []) tr)"

definition waits :: "event list \<Rightarrow> nat list" where
  "waits tr = concat (map (\<lambda>e. case e of Fetch n \<Rightarrow> [] | Wait d \<Rightarrow> [d]) tr)"

section \<open>AudioRecorder\<close>

text \<open>An exception object: its \<^verbatim>\<open>name\<close> and its \<^verbatim>\<open>message\<close>.\<close>

record js_exception =
  exn_name :: string
  exn_message :: string

text \<open>The browser that \<^verbatim>\<open>startRecording\<close> runs in: the user agent tests, whether
  \<^verbatim>\<open>MediaRecorder\<close> exists and which types it supports, and how \<^verbatim>\<open>getUserMedia\<close> and
  \<^verbatim>\<open>mediaRecorder.start\<close> end (\<open>None\<close>: without an exception). The \<^verbatim>\<open>MediaRecorder\<close>
  constructor throws \<^verbatim>\<open>NotSupportedError\<close> for a type that is not supported.\<close>

record browser =
  isIOSSafari :: bool
  isSecureContext :: bool
  has_MediaRecorder :: bool
  isTypeSupported :: "string \<Rightarrow> bool"
  getUserMedia_error :: "js_exception option"
  start_error :: "js_exception option"

text \<open>An \<^verbatim>\<open>AudioRecording\<close>: the size and type of its blob, its duration (in milliseconds,
  before the division by 1000), the clock reading of its timestamp, and its format.\<close>

record recording =
  blob_size :: nat
  blob_type :: string
  duration_ms :: int
  timestamp :: int
  format :: string

text \<open>The component: its \<^verbatim>\<open>recordingState\<close>, its refs, the device streams whose tracks run
  and the intervals that are set (by number, in the order they were made), and the calls
  of the two callbacks so far.\<close>

record recorder =
  isRecording :: bool
  isPaused :: bool
  duration :: int
  error :: "string option"
  mediaRecorderRef :: "string option"
  audioChunksRef :: "nat list"
  startTimeRef :: int
  durationIntervalRef :: "nat option"
  streamRef :: "nat option"
  live_streams :: "nat list"
  intervals :: "nat list"
  next_id :: nat
  completed :: "recording list"
  reported :: "string list"

definition mounted :: recorder where
  "mounted =
     \<lparr> isRecording = False, isPaused = False, duration = 0, error = None,
       mediaRecorderRef = None, audioChunksRef = [], startTimeRef = 0,
       durationIntervalRef = None, streamRef = None,
       live_streams = [], intervals = [], next_id = 0, completed = [], reported = [] \<rparr>"

definition mime_types :: "string list" where
  "mime_types =
     [''audio/webm;codecs=opus'', ''audio/webm'', ''audio/mp4'', ''audio/mp4;codecs=mp4a'',
      ''audio/wav'', ''audio/ogg;codecs=opus'', ''audio/ogg'']"

text \<open>\<^verbatim>\<open>getSupportedMimeType()\<close>, where \<^verbatim>\<open>MediaRecorder\<close> exists.\<close>

definition getSupportedMimeType :: "browser \<Rightarrow> string" where
  "getSupportedMimeType b =
     (case filter (isTypeSupported b) mime_types of
        t # ts \<Rightarrow> t
      | [] \<Rightarrow> if isIOSSafari b then ''audio/mp4'' else ''audio/webm;codecs=opus'')"

text \<open>The \<^verbatim>\<open>catch\<close> block of \<^verbatim>\<open>startRecording\<close>.\<close>

definition start_failed :: "js_exception \<Rightarrow> recorder \<Rightarrow> recorder" where
  "start_failed e s =
     (let shown =
            (if exn_name e = ''NotAllowedError''
             then ''Microphone access denied. Please allow microphone access and try again.''
             else if exn_name e = ''NotFoundError''
             then ''No microphone found. Please connect a microphone and try again.''
             else if exn_name e = ''NotSupportedError''
             then ''Recording not supported in this browser. Please try a different browser.''
             else if exn_name e = ''SecurityError''
             then ''Microphone access blocked. Please use HTTPS or localhost for secure access.''
             else exn_message e)
      in s\<lparr> error := Some shown, reported := reported s @ [shown] \<rparr>)"

text \<open>\<^verbatim>\<open>startRecording()\<close> at clock reading \<open>now\<close>: each step of the \<^verbatim>\<open>try\<close> block that
  can throw, in its order.\<close>

definition startRecording :: "browser \<Rightarrow> int \<Rightarrow> recorder \<Rightarrow> recorder" where
  "startRecording b now s =
     (if isIOSSafari b \<and> \<not> isSecureContext b
      then start_failed
             \<lparr> exn_name = ''Error'',
               exn_message = ''iOS Safari requires HTTPS for microphone access. Please use HTTPS or localhost.'' \<rparr> s
      else (case getUserMedia_error b of
              Some e \<Rightarrow> start_failed e s
            | None \<Rightarrow>
                (let s1 = s\<lparr> streamRef := Some (next_id s),
                              live_streams := live_streams s @ [next_id s],
                              next_id := next_id s + 1 \<rparr>
                 in if \<not> has_MediaRecorder b
                    then start_failed
                           \<lparr> exn_name = ''ReferenceError'',
                             exn_message = ''MediaRecorder is not defined'' \<rparr> s1
                    else (let mimeType = getSupportedMimeType b
                          in if \<not> isTypeSupported b mimeType
                             then start_failed
                                    \<lparr> exn_name = ''NotSupportedError'',
                                      exn_message = ''Failed to construct MediaRecorder'' \<rparr> s1
                             else (let s2 = s1\<lparr> mediaRecorderRef := Some mimeType,
                                                audioChunksRef := [],
                                                startTimeRef := now \<rparr>
                                   in (case start_error b of
                                         Some e \<Rightarrow> start_failed e s2
                                       | None \<Rightarrow>
                                           s2\<lparr> isRecording := True, isPaused := False,
                                               duration := 0, error := None,
                                               durationIntervalRef := Some (next_id s2),
                                               intervals := intervals s2 @ [next_id s2],
                                               next_id := next_id s2 + 1 \<rparr>))))))"

text \<open>\<^verbatim>\<open>mediaRecorder.ondataavailable\<close> for a chunk of \<open>bytes\<close> bytes.\<close>

definition ondataavailable :: "nat \<Rightarrow> recorder \<Rightarrow> recorder" where
  "ondataavailable bytes s =
     (if bytes > 0 then s\<lparr> audioChunksRef := audioChunksRef s @ [bytes] \<rparr> else s)"

text \<open>\<^verbatim>\<open>mimeType.split(';')[0].split('/')[1]\<close>, for a type with a slash.\<close>

definition format_of :: "string \<Rightarrow> string" where
  "format_of mimeType =
     takeWhile (\<lambda>c. c \<noteq> CHR ''/'')
       (drop 1 (dropWhile (\<lambda>c. c \<noteq> CHR ''/'') (takeWhile (\<lambda>c. c \<noteq> CHR '';'') mimeType)))"

text \<open>\<^verbatim>\<open>mediaRecorder.onstop\<close> of the recorder made with \<open>mimeType\<close>, at clock reading
  \<open>now\<close>. \<open>callback_error\<close> is the message of the error that \<^verbatim>\<open>onRecordingComplete\<close>
  throws, if it throws. The call is recorded in either case; the clean-up runs only
  when it returns.\<close>

definition onstop :: "string \<Rightarrow> int \<Rightarrow> string option \<Rightarrow> recorder \<Rightarrow> recorder" where
  "onstop mimeType now callback_error s =
     (let recording =
            \<lparr> blob_size = sum_list (audioChunksRef s),
              blob_type = mimeType,
              duration_ms = now - startTimeRef s,
              timestamp = now,
              format = format_of mimeType \<rparr>;
          s1 = s\<lparr> completed := completed s @ [recording] \<rparr>
      in (case callback_error of
            Some message \<Rightarrow>
              s1\<lparr> reported := reported s1 @ [''Failed to process recording: '' @ message] \<rparr>
          | None \<Rightarrow>
              (let s2 = (case streamRef s1 of
                           Some stream \<Rightarrow>
                             s1\<lparr> live_streams := removeAll stream (live_streams s1),
                                 streamRef := None \<rparr>
                         | None \<Rightarrow> s1)
               in (case durationIntervalRef s2 of
                     Some i \<Rightarrow>
                       s2\<lparr> intervals := removeAll i (intervals s2),
                           durationIntervalRef := None \<rparr>
                   | None \<Rightarrow> s2))))"

text \<open>\<^verbatim>\<open>mediaRecorder.onerror\<close> for an event whose error has the message \<open>message\<close>
  (\<open>None\<close>: no message).\<close>

definition onerror :: "string option \<Rightarrow> recorder \<Rightarrow> recorder" where
  "onerror message s =
     (let shown =
            ''Recording error: '' @ (case message of Some m \<Rightarrow> if m \<noteq> [] then m else ''Unknown error''
                                     | None \<Rightarrow> ''Unknown error'')
      in s\<lparr> error := Some shown, reported := reported s @ [shown] \<rparr>)"

text \<open>\<^verbatim>\<open>stopRecording()\<close>. The browser answers \<^verbatim>\<open>mediaRecorder.stop()\<close> with a last
  \<^verbatim>\<open>dataavailable\<close> event and the \<^verbatim>\<open>stop\<close> event.\<close>

definition stopRecording :: "recorder \<Rightarrow> recorder" where
  "stopRecording s =
     (if mediaRecorderRef s \<noteq> None \<and> isRecording s then s\<lparr> isRecording := False \<rparr> else s)"

text \<open>The interval's callback, and the effect that stops at the maximum duration
  (\<open>maxDuration\<close> in seconds, the clock in milliseconds).\<close>

definition tick :: "int \<Rightarrow> recorder \<Rightarrow> recorder" where
  "tick now s = s\<lparr> duration := now - startTimeRef s \<rparr>"

definition auto_stop :: "int \<Rightarrow> recorder \<Rightarrow> recorder" where
  "auto_stop maxDuration s =
     (if isRecording s \<and> duration s \<ge> maxDuration * 1000 then stopRecording s else s)"

text \<open>The clean-up on unmount.\<close>

definition unmount :: "recorder \<Rightarrow> recorder" where
  "unmount s =
     (let s1 = (case durationIntervalRef s of
                  Some i \<Rightarrow> s\<lparr> intervals := removeAll i (intervals s) \<rparr>
                | None \<Rightarrow> s)
      in (case streamRef s1 of
            Some stream \<Rightarrow> s1\<lparr> live_streams := removeAll stream (live_streams s1) \<rparr>
          | None \<Rightarrow> s1))"


text \<open>A capture session stops: \<^verbatim>\<open>stopRecording()\<close>, then the browser's last
  \<^verbatim>\<open>dataavailable\<close> event, with \<open>last_chunk\<close> bytes, and its \<^verbatim>\<open>stop\<close> event.\<close>

definition stop_session :: "nat \<Rightarrow> int \<Rightarrow> string option \<Rightarrow> recorder \<Rightarrow> recorder" where
  "stop_session last_chunk now callback_error s =
     (case mediaRecorderRef s of
        Some mimeType \<Rightarrow>
          if isRecording s
          then onstop mimeType now callback_error (ondataavailable last_chunk (stopRecording s))
          else s
      | None \<Rightarrow> s)"

section \<open>A platform and segments to run the model on\<close>

text \<open>The compact JSON text of a value, for ASCII strings and for numbers with at most
  17 decimal places.\<close>

fun fraction_digits :: "nat \<Rightarrow> rat \<Rightarrow> string" where
  "fraction_digits 0 r = []"
| "fraction_digits (Suc k) r =
     (if r = 0 then []
      else digit (nat \<lfloor>10 * r\<rfloor>) # fraction_digits k (10 * r - of_int \<lfloor>10 * r\<rfloor>))"

definition decimal :: "rat \<Rightarrow> string" where
  "decimal n =
     (if n < 0 then ''-'' else [])
     @ string_of_nat (nat \<lfloor>\<bar>n\<bar>\<rfloor>)
     @ (if \<bar>n\<bar> = of_int \<lfloor>\<bar>n\<bar>\<rfloor> then []
        else ''.'' @ fraction_digits 17 (\<bar>n\<bar> - of_int \<lfloor>\<bar>n\<bar>\<rfloor>))"


fun escape :: "string \<Rightarrow> string" where
  "escape [] = []"
| "escape (c # cs) =
     (if c = CHR 0x22 \<or> c = CHR 0x5C then CHR 0x5C # c # escape cs else c # escape cs)"

definition quoted :: "string \<Rightarrow> string" where
  "quoted s = CHR 0x22 # escape s @ [CHR 0x22]"

fun commas :: "string list \<Rightarrow> string" where
  "commas [] = []"
| "commas [s] = s"
| "commas (s # ss) = s @ '','' @ commas ss"

primrec compact :: "jsval \<Rightarrow> string" where
  "compact Undefined = ''undefined''"
| "compact Null = ''null''"
| "compact (Bool b) = (if b then ''true'' else ''false'')"
| "compact (Num n) = decimal n"
| "compact (Str s) = quoted s"
| "compact (DateV d) = (case d of Date s \<Rightarrow> quoted s | Invalid_Date \<Rightarrow> ''null'')"
| "compact (Arr xs) = ''['' @ commas (map compact xs) @ '']''"
| "compact (Obj fs) =
     ''{'' @ commas (map (\<lambda>kv. quoted (fst kv) @ '':'' @ snd kv) (map (map_prod id compact) fs)) @ ''}''"

text \<open>A platform to run the model on: a blob counts the bytes of the compact text, no
  date format beyond the ISO one is read, and no non-number converts to a number.\<close>

definition ascii_platform :: platform where
  "ascii_platform =
     \<lparr> Blob_size = (\<lambda>t. case t of JSON_of v \<Rightarrow> length (compact v) | Malformed s \<Rightarrow> length s),
       Date_other = (\<lambda>v. Invalid_Date),
       ToNumber_other = (\<lambda>v. None) \<rparr>"

text \<open>A \<^verbatim>\<open>TranscriptionSegment\<close> as an object, and two of them.\<close>

definition segment :: "string \<Rightarrow> string \<Rightarrow> jsval \<Rightarrow> jsval \<Rightarrow> rat \<Rightarrow> jsval \<Rightarrow> jsval" where
  "segment i t emotion emoji confidence stamp =
     Obj [(''id'', Str i), (''text'', Str t), (''emotion'', emotion), (''emoji'', emoji),
          (''confidence'', Num confidence), (''timestamp'', stamp)]"


definition seg1 :: jsval where
  "seg1 = segment ''17'' ''hello'' (Str ''joy'') Undefined (19 / 20) (DateV (Date ''2024-01-01T10:00:00.000Z''))"
definition seg2 :: jsval where
  "seg2 = segment ''18'' ''bye'' Undefined Undefined 1 (DateV (Date ''2024-01-01T10:00:05.000Z''))"


definition bucket :: "string \<Rightarrow> jsval \<Rightarrow> jsval" where
  "bucket d settings =
     Obj [(''date'', Str d),
          (''settings'', settings),
          (''transcripts'', Arr [json_element seg1]),
          (''metadata'',
             Obj [(''lastUpdated'', Num 1704189600000),
                  (''storageSize'', Num 400),
                  (''transcriptCount'', Num 1),
                  (''themeLastChanged'', Num 1704189600000)])]"



text \<open>Settings that a user chose, and a storage whose bucket is of the day before.\<close>

definition dark_settings :: jsval where
  "dark_settings =
     Obj [(''theme'', Str ''dark''),
          (''fontSize'', Str ''large''),
          (''showEmojis'', Bool True),
          (''showTags'', Bool False),
          (''autoSave'', Bool True),
          (''displayMode'',
             Obj [(''id'', Str ''emoji-only''),
                  (''name'', Str ''Emojis Only''),
                  (''description'', Str ''Show only emotion emojis''),
                  (''icon'', Str ''happyOutline'')]),
          (''accessibility'',
             Obj [(''reducedMotion'', Bool True), (''dyslexiaFriendly'', Bool False)])]"

definition yesterday_storage :: storage where
  "yesterday_storage =
     [key_prefix @ STORAGE_KEY \<mapsto> item_of (bucket ''2024-01-01'' dark_settings) 1704103205000]"





text \<open>Responses of the server, an endpoint that always answers 413, and one that fails
  once before it is not found.\<close>

definition server_error :: response where
  "server_error =
     \<lparr> status = 500, statusText = ''Internal Server Error'',
       text_body = Inr ''Internal Server Error'', json_body = Inr (Obj [(''success'', Bool False)]) \<rparr>"

definition transcribed :: response where
  "transcribed =
     \<lparr> status = 200, statusText = ''OK'',
       text_body = Inr '''', json_body = Inr (Obj [(''success'', Bool True)]) \<rparr>"

definition not_found :: response where
  "not_found =
     \<lparr> status = 404, statusText = ''Not Found'',
       text_body = Inr ''Not Found'', json_body = Inl ''Unexpected token N in JSON at position 0'' \<rparr>"

definition payload_too_large :: response where
  "payload_too_large =
     \<lparr> status = 413, statusText = ''Payload Too Large'',
       text_body = Inr ''Payload Too Large'',
       json_body = Inl ''Unexpected token P in JSON at position 0'' \<rparr>"

definition always_too_large :: "nat \<Rightarrow> fetch_outcome" where
  "always_too_large n = Responds payload_too_large"

definition error_then_not_found :: "nat \<Rightarrow> fetch_outcome" where
  "error_then_not_found n = (if n = 1 then Responds server_error else Responds not_found)"

text \<open>A browser that records WebM, and one whose \<^verbatim>\<open>MediaRecorder\<close> supports none of the
  types the component asks for.\<close>

definition chrome :: browser where
  "chrome =
     \<lparr> isIOSSafari = False, isSecureContext = True, has_MediaRecorder = True,
       isTypeSupported = (\<lambda>t. t \<in> set [''audio/webm;codecs=opus'', ''audio/webm'']),
       getUserMedia_error = None, start_error = None \<rparr>"

definition no_recorder_types :: browser where
  "no_recorder_types =
     \<lparr> isIOSSafari = False, isSecureContext = True, has_MediaRecorder = True,
       isTypeSupported = (\<lambda>t. False),
       getUserMedia_error = None, start_error = None \<rparr>"


section \<open>Numbers in the compact text\<close>

lemma decimal_of_int:
  "decimal (of_int i) = (if i < 0 then ''-'' else []) @ string_of_nat (nat \<bar>i\<bar>)"
  by (simp add: decimal_def flip: of_int_abs)

lemma decimal_of_nat [simp]: "decimal (of_nat n) = string_of_nat n"
  using decimal_of_int [of "int n"] by simp

lemma decimal_numeral [simp]: "decimal (numeral k) = string_of_nat (numeral k)"
  using decimal_of_nat [of "numeral k"] by simp

lemma decimal_0 [simp]: "decimal 0 = string_of_nat 0"
  using decimal_of_nat [of 0] by simp

lemma decimal_1 [simp]: "decimal 1 = string_of_nat 1"
  using decimal_of_nat [of 1] by simp

lemma fraction_digits_numeral:
  "fraction_digits (numeral k) r =
     (if r = 0 then []
      else digit (nat \<lfloor>10 * r\<rfloor>)
             # fraction_digits (pred_numeral k) (10 * r - of_int \<lfloor>10 * r\<rfloor>))"
  by (simp add: numeral_eq_Suc)

lemma floor_numeral_quotient:
  "\<lfloor>numeral a / numeral b :: rat\<rfloor> = numeral a div numeral b"
  using floor_divide_of_int_eq [of "numeral a" "numeral b", where ?'a = rat] by simp

lemma decimal_confidence [simp]: "length (decimal (19 / 20)) = 4"
  by (simp add: decimal_def fraction_digits_numeral floor_numeral_quotient
        string_of_nat.simps digit_def)

section \<open>Properties of the transcript store\<close>

lemma toJSON_Undefined_iff: "toJSON v = Undefined \<longleftrightarrow> v = Undefined"
  by (cases v) (auto split: date.splits)

lemma toJSON_idem: "toJSON (toJSON v) = toJSON v"
proof (induction v)
  case (Arr xs)
  then show ?case by (auto simp: toJSON_Undefined_iff)
next
  case (Obj fs)
  then show ?case by (auto simp: toJSON_Undefined_iff filter_map comp_def)
qed (auto split: date.splits)


lemma json_element_idem: "json_element (json_element x) = json_element x"
  by (simp add: json_element_def toJSON_idem toJSON_Undefined_iff)

lemma JSON_stringify_Arr: "JSON_stringify (Arr xs) = JSON_of (Arr (map json_element xs))"
  by (simp add: JSON_stringify_def json_element_def)

lemma JSON_stringify_json_elements:
  "JSON_stringify (Arr (map json_element xs)) = JSON_stringify (Arr xs)"
  by (simp add: JSON_stringify_Arr json_element_idem)

lemma reduce_suffix: "suffix (reduceTranscriptsToFit P xs) xs"
  by (induction xs) (auto simp: suffix_Cons)

lemma reduce_fits:
  "reduceTranscriptsToFit P xs = [] \<or>
   Blob_size P (JSON_stringify (Arr (reduceTranscriptsToFit P xs))) \<le> MAX_STORAGE_SIZE"
  by (induction xs) auto

lemma slice_last_suffix: "suffix (slice_last n xs) xs"
  by (simp add: slice_last_def suffix_drop)

lemma slice_last_length: "length (slice_last n xs) \<le> n"
  by (simp add: slice_last_def)

lemma persisted_set:
  "persisted_transcripts (StorageUtils_set now TRANSCRIPTS_KEY (Arr xs) None ls)
     = Some (map json_element xs)"
  by (simp add: persisted_transcripts_def StorageUtils_set_def JSON_stringify_def json_element_def)

lemma persisted_save:
  "persisted_transcripts (saveTranscripts P now ts ls) = Some (map json_element (kept_by_save P ts))"
  by (simp add: saveTranscripts_def kept_by_save_def Let_def persisted_set)

lemma kept_suffix: "suffix (kept_by_save P ts) ts"
  unfolding kept_by_save_def
  using suffix_order.trans [OF reduce_suffix slice_last_suffix] slice_last_suffix
  by auto

lemma kept_length: "length (kept_by_save P ts) \<le> MAX_TRANSCRIPTS"
  unfolding kept_by_save_def
  using suffix_length_le [OF reduce_suffix, of P "slice_last MAX_TRANSCRIPTS ts"]
    slice_last_length [of MAX_TRANSCRIPTS ts]
  by auto

lemma kept_fits:
  "kept_by_save P ts = [] \<or> Blob_size P (JSON_stringify (Arr (kept_by_save P ts))) \<le> MAX_STORAGE_SIZE"
  unfolding kept_by_save_def using reduce_fits [of P "slice_last MAX_TRANSCRIPTS ts"]
  by auto

lemma save_post:
  "\<exists>xs. persisted_transcripts (saveTranscripts P now ts ls) = Some xs
        \<and> within_limits P xs \<and> suffix xs (map json_element ts)"
proof -
  let ?k = "kept_by_save P ts"
  have "within_limits P (map json_element ?k)"
    using kept_length [of P ts] kept_fits [of P ts]
    by (auto simp: within_limits_def JSON_stringify_json_elements)
  moreover have "suffix (map json_element ?k) (map json_element ts)"
    using kept_suffix [of P ts] by (rule map_mono_suffix)
  ultimately show ?thesis by (simp add: persisted_save)
qed

text \<open>
  Claim C1. After every call of \<^verbatim>\<open>saveTranscripts\<close>, \<^verbatim>\<open>addTranscript\<close> or
  \<^verbatim>\<open>addTranscripts\<close>, whatever calls came before and whatever the storage held, the
  persisted transcript sequence has at most 1000 segments, its serialisation has at most
  5 * 1024 * 1024 bytes unless the sequence is empty, and it is a suffix of the sequence
  the call handed to \<^verbatim>\<open>saveTranscripts\<close> (in serialised form): only oldest segments are
  dropped.
\<close>

theorem saveTranscripts_within_limits:
  "\<exists>xs. persisted_transcripts (perform P now c (perform_all P cs ls)) = Some xs
        \<and> within_limits P xs
        \<and> suffix xs (map json_element (call_input P now c (perform_all P cs ls)))"
  by (cases c) (auto simp: addTranscript_def addTranscripts_def split_beta Let_def intro: save_post simp del: map_append)

lemma iso_utc_10_00_00: "iso_utc ''2024-01-01T10:00:00.000Z''"
  by (simp add: iso_utc_def is_digit_def number_of_def days_in_month_def leap_year_def)

lemma storage_after_first_add: "perform_all ascii_platform [(1, AddTranscript seg1)] Map.empty
  = [key_prefix @ TRANSCRIPTS_KEY \<mapsto> JSON_of (Obj [(''value'', Arr [json_element seg1]), (''timestamp'', Num 1)])]"
  by (simp add: addTranscript_def getTranscripts_def StorageUtils_get_def saveTranscripts_def slice_last_def
      MAX_TRANSCRIPTS_def MAX_STORAGE_SIZE_def ascii_platform_def JSON_stringify_def StorageUtils_set_def
      json_element_def seg1_def segment_def quoted_def string_of_nat.simps digit_def)



lemma persisted_after_second_add: "persisted_transcripts (perform ascii_platform 2 (AddTranscript seg2)
     (perform_all ascii_platform [(1, AddTranscript seg1)] Map.empty))
   = Some [json_element seg1, json_element seg2]"
  unfolding storage_after_first_add
  by (simp add: addTranscript_def getTranscripts_def StorageUtils_get_def saveTranscripts_def slice_last_def
      MAX_TRANSCRIPTS_def MAX_STORAGE_SIZE_def ascii_platform_def JSON_stringify_def StorageUtils_set_def
      json_element_def seg1_def seg2_def segment_def quoted_def string_of_nat.simps digit_def
      with_Date_def iso_utc_10_00_00 persisted_transcripts_def)

theorem saveTranscripts_within_limits_witness:
  "persisted_transcripts (perform ascii_platform 2 (AddTranscript seg2)
     (perform_all ascii_platform [(1, AddTranscript seg1)] Map.empty))
   = Some [json_element seg1, json_element seg2]
   \<and> within_limits ascii_platform [json_element seg1, json_element seg2]"
  using saveTranscripts_within_limits
    [of ascii_platform 2 "AddTranscript seg2" "[(1, AddTranscript seg1)]" Map.empty]
  unfolding persisted_after_second_add by simp

section \<open>Reads of unparseable data, and imports\<close>

text \<open>
  Claim C8. When the string stored under a key is not parseable (\<^verbatim>\<open>JSON.parse\<close> throws),
  every read treats the data as absent and leaves the storage alone:
  \<^verbatim>\<open>StorageUtils.get\<close> returns \<^verbatim>\<open>null\<close>, \<^verbatim>\<open>getTranscripts\<close> returns the empty list and
  \<^verbatim>\<open>StorageUtils.getSettings\<close> returns the default settings.
\<close>

theorem unparseable_reads_as_absent:
  "ls (key_prefix @ key) = Some raw \<and> JSON_parse raw = None \<longrightarrow>
     StorageUtils_get P now key ls = (Null, ls)
     \<and> (key = TRANSCRIPTS_KEY \<longrightarrow> getTranscripts P now ls = ([], ls))
     \<and> (key = ''settings'' \<longrightarrow> StorageUtils_getSettings P now ls = (default_settings, ls))"
  by (auto simp: StorageUtils_get_def getTranscripts_def StorageUtils_getSettings_def)

theorem unparseable_reads_as_absent_witness:
  "StorageUtils_get ascii_platform 5 ''settings''
      [key_prefix @ ''settings'' \<mapsto> Malformed ''{not json'']
     = (Null, [key_prefix @ ''settings'' \<mapsto> Malformed ''{not json''])
   \<and> StorageUtils_getSettings ascii_platform 5 [key_prefix @ ''settings'' \<mapsto> Malformed ''{not json'']
     = (default_settings, [key_prefix @ ''settings'' \<mapsto> Malformed ''{not json''])
   \<and> getTranscripts ascii_platform 5 [key_prefix @ TRANSCRIPTS_KEY \<mapsto> Malformed ''[{'']
     = ([], [key_prefix @ TRANSCRIPTS_KEY \<mapsto> Malformed ''[{''])"
  using unparseable_reads_as_absent
    [of "[key_prefix @ ''settings'' \<mapsto> Malformed ''{not json'']" "''settings''"
        "Malformed ''{not json''" ascii_platform 5]
    unparseable_reads_as_absent
    [of "[key_prefix @ TRANSCRIPTS_KEY \<mapsto> Malformed ''[{'']" TRANSCRIPTS_KEY
        "Malformed ''[{''" ascii_platform 5]
  by simp

text \<open>
  Claim C9. \<^verbatim>\<open>importTranscripts\<close> returns \<^verbatim>\<open>false\<close> and leaves the storage as it was for
  every input that is not valid JSON or does not parse to an array; and whenever it
  returns \<^verbatim>\<open>false\<close> the storage is unchanged, so it writes only when it returns \<^verbatim>\<open>true\<close>.
\<close>

theorem importTranscripts_rejects:
  "((JSON_parse jsonData = None \<or> (\<exists>v. JSON_parse jsonData = Some v \<and> \<not> is_array v))
      \<longrightarrow> importTranscripts P now jsonData ls = (False, ls))
   \<and> (fst (importTranscripts P now jsonData ls) = False
      \<longrightarrow> snd (importTranscripts P now jsonData ls) = ls)"
  by (auto simp: importTranscripts_def is_array_def split: option.splits jsval.splits sum.splits)

theorem importTranscripts_rejects_witness:
  "importTranscripts ascii_platform 7 (Malformed ''[1,'') [key_prefix @ TRANSCRIPTS_KEY \<mapsto> Malformed ''x'']
     = (False, [key_prefix @ TRANSCRIPTS_KEY \<mapsto> Malformed ''x''])
   \<and> importTranscripts ascii_platform 7 (JSON_of (Obj [(''id'', Str ''1'')])) Map.empty = (False, Map.empty)
   \<and> importTranscripts ascii_platform 7 (JSON_of (Arr [Null])) Map.empty = (False, Map.empty)"
  using importTranscripts_rejects [of "Malformed ''[1,''" ascii_platform 7 "[key_prefix @ TRANSCRIPTS_KEY \<mapsto> Malformed ''x'']"]
    importTranscripts_rejects [of "JSON_of (Obj [(''id'', Str ''1'')])" ascii_platform 7 Map.empty]
    importTranscripts_rejects [of "JSON_of (Arr [Null])" ascii_platform 7 Map.empty]
  by (simp add: is_array_def importTranscripts_def with_Date_def)

section \<open>The settings migration\<close>







lemma get_item_of:
  "ls (key_prefix @ key) = Some (item_of v t) \<Longrightarrow> StorageUtils_get P now key ls = (v, ls)"
  by (simp add: StorageUtils_get_def item_of_def)




















section \<open>Export and import\<close>

lemma set_prop_same_value: "map_of fs k = Some v \<Longrightarrow> set_prop fs k v = fs"
  by (induction fs) (auto split: if_splits)











section \<open>The daily bucket on a new day\<close>

lemma saveData_new:
  "\<exists>ms'. saveData P now
            (Obj [(''date'', d), (''settings'', s), (''transcripts'', ts), (''metadata'', Obj ms)]) ls
          = Inr (Obj [(''date'', d), (''settings'', s), (''transcripts'', ts), (''metadata'', Obj ms')],
                 StorageUtils_set now STORAGE_KEY
                   (Obj [(''date'', d), (''settings'', s), (''transcripts'', ts),
                         (''metadata'', Obj ms')]) None ls)"
  by (auto simp: saveData_def Let_def)

text \<open>
  Claim C2 says that with a stored bucket dated 2024-01-01 and the current date
  2024-01-02, \<^verbatim>\<open>getCurrentData\<close> returns and persists a bucket dated 2024-01-02 with no
  transcripts and with the settings of the stored bucket. The date and the transcripts
  are as claimed; the settings are not. What the code does: whenever the stored date is
  not today's, the bucket it returns and stores is dated today, has no transcripts, and
  has the default settings, whatever settings were stored.
\<close>

theorem getCurrentData_new_day:
  "StorageUtils_get P now STORAGE_KEY ls = (stored, ls') \<and> field stored ''date'' \<noteq> Str today
   \<longrightarrow> (\<exists>data. getCurrentData P now today ls
                   = Inr (data, StorageUtils_set now STORAGE_KEY data None ls')
              \<and> field data ''date'' = Str today
              \<and> field data ''transcripts'' = Arr []
              \<and> field data ''settings'' = default_settings)"
proof (intro impI, elim conjE)
  assume g: "StorageUtils_get P now STORAGE_KEY ls = (stored, ls')"
    and d: "field stored ''date'' \<noteq> Str today"
  have c: "\<not> truthy stored \<or> get_prop stored ''date'' \<noteq> Inr (Str today)"
    using d by (cases stored) (auto simp: field_def)
  let ?md = "[(''lastUpdated'', Num (of_int now)), (''storageSize'', Num 0),
              (''transcriptCount'', Num 0), (''themeLastChanged'', Num (of_int now))]"
  from saveData_new [of P now "Str today" default_settings "Arr []" ?md ls']
  obtain ms' where
    "saveData P now (Obj [(''date'', Str today), (''settings'', default_settings),
                          (''transcripts'', Arr []), (''metadata'', Obj ?md)]) ls'
       = Inr (Obj [(''date'', Str today), (''settings'', default_settings),
                   (''transcripts'', Arr []), (''metadata'', Obj ms')],
              StorageUtils_set now STORAGE_KEY
                (Obj [(''date'', Str today), (''settings'', default_settings),
                      (''transcripts'', Arr []), (''metadata'', Obj ms')]) None ls')"
    by blast
  then have "getCurrentData P now today ls
       = Inr (Obj [(''date'', Str today), (''settings'', default_settings),
                   (''transcripts'', Arr []), (''metadata'', Obj ms')],
              StorageUtils_set now STORAGE_KEY
                (Obj [(''date'', Str today), (''settings'', default_settings),
                      (''transcripts'', Arr []), (''metadata'', Obj ms')]) None ls')"
    using g c by (simp add: getCurrentData_def Let_def del: disj_not1)
  then show "\<exists>data. getCurrentData P now today ls
                   = Inr (data, StorageUtils_set now STORAGE_KEY data None ls')
              \<and> field data ''date'' = Str today
              \<and> field data ''transcripts'' = Arr []
              \<and> field data ''settings'' = default_settings"
    by (simp add: field_def)
qed

theorem getCurrentData_new_day_witness:
  "(\<exists>data ls'. getCurrentData ascii_platform 1704190000000 ''2024-01-02'' yesterday_storage
                   = Inr (data, ls')
              \<and> field data ''date'' = Str ''2024-01-02''
              \<and> field data ''transcripts'' = Arr []
              \<and> field data ''settings'' = default_settings)
   \<and> stored_value yesterday_storage STORAGE_KEY = Some (bucket ''2024-01-01'' dark_settings)
   \<and> field (bucket ''2024-01-01'' dark_settings) ''settings'' = dark_settings
   \<and> field dark_settings ''theme'' = Str ''dark''
   \<and> field default_settings ''theme'' = Str ''modern-blue''"
  using getCurrentData_new_day
    [where P = ascii_platform and now = 1704190000000 and ls = yesterday_storage
       and stored = "bucket ''2024-01-01'' dark_settings" and ls' = yesterday_storage
       and today = "''2024-01-02''"]
  by (auto simp: yesterday_storage_def get_item_of bucket_def field_def dark_settings_def
        default_settings_def stored_value_def item_of_def)


text \<open>\<^verbatim>\<open>resetDailyData\<close>, commented ``keeps settings, clears transcripts'', does so on the
  day of the stored bucket; run after the date has changed it reads the bucket through
  \<^verbatim>\<open>getCurrentData\<close> and the settings are the defaults.\<close>

lemma resetDailyData_after_rollover:
  "\<exists>ls' b. resetDailyData ascii_platform 1704190000000 ''2024-01-02'' yesterday_storage = Inr ls'
          \<and> stored_value ls' STORAGE_KEY = Some b
          \<and> field b ''date'' = Str ''2024-01-02''
          \<and> field b ''settings'' = default_settings"
  by (simp add: resetDailyData_def getCurrentData_def yesterday_storage_def get_item_of bucket_def
        saveData_def Let_def calculateStorageSize_def stored_value_def StorageUtils_set_def
        JSON_stringify_def field_def default_settings_def default_displayMode_def)

lemma resetDailyData_same_day:
  "\<exists>ls' b. resetDailyData ascii_platform 1704190000000 ''2024-01-01'' yesterday_storage = Inr ls'
          \<and> stored_value ls' STORAGE_KEY = Some b
          \<and> field b ''transcripts'' = Arr []
          \<and> field b ''settings'' = dark_settings"
  by (simp add: resetDailyData_def getCurrentData_def yesterday_storage_def get_item_of bucket_def
        saveData_def Let_def calculateStorageSize_def stored_value_def StorageUtils_set_def
        JSON_stringify_def field_def dark_settings_def)

section \<open>Retries of a request\<close>

lemma no_retry_500: "\<not> no_retry ''Server error - please try again later''"
  by (simp add: no_retry_def)

lemma no_retry_404: "no_retry ''API endpoint not found - please check the server configuration''"
  by (simp add: no_retry_def)

lemma no_retry_413: "\<not> no_retry ''Audio file too large - please record a shorter message''"
  by (simp add: no_retry_def)


lemma attempt_result_500:
  "status r = 500 \<Longrightarrow> text_body r = Inr t \<Longrightarrow>
   attempt_result (Responds r) = Inl ''Server error - please try again later''"
  by (simp add: attempt_result_def response_ok_def http_error_def)

lemma attempt_result_404:
  "status r = 404 \<Longrightarrow> text_body r = Inr t \<Longrightarrow>
   attempt_result (Responds r)
     = Inl ''API endpoint not found - please check the server configuration''"
  by (simp add: attempt_result_def response_ok_def http_error_def)

lemma attempt_result_413:
  "status r = 413 \<Longrightarrow> text_body r = Inr t \<Longrightarrow>
   attempt_result (Responds r) = Inl ''Audio file too large - please record a shorter message''"
  by (simp add: attempt_result_def response_ok_def http_error_def)

lemma attempt_result_ok:
  "response_ok r \<Longrightarrow> attempt_result (Responds r) = json_body r"
  by (simp add: attempt_result_def)

lemma attempts_from_returns:
  "attempt \<le> maxRetries \<Longrightarrow> attempt_result (fetch attempt) = Inr data \<Longrightarrow>
   attempts_from fetch attempt lastError = (Inr data, [Fetch attempt])"
  by (simp add: attempts_from.simps [of fetch attempt])

lemma attempts_from_breaks:
  "attempt \<le> maxRetries \<Longrightarrow> attempt_result (fetch attempt) = Inl message \<Longrightarrow>
   no_retry message \<Longrightarrow>
   attempts_from fetch attempt lastError = (Inl (Some message), [Fetch attempt])"
  by (simp add: attempts_from.simps [of fetch attempt])

lemma attempts_from_retries:
  "attempt < maxRetries \<Longrightarrow> attempt_result (fetch attempt) = Inl message \<Longrightarrow>
   \<not> no_retry message \<Longrightarrow>
   attempts_from fetch attempt lastError
     = apsnd (\<lambda>tr. Fetch attempt # Wait (retryDelay * attempt) # tr)
         (attempts_from fetch (attempt + 1) (Some message))"
  by (simp add: attempts_from.simps [of fetch attempt])

lemma attempts_from_last:
  "attempt_result (fetch maxRetries) = Inl message \<Longrightarrow> \<not> no_retry message \<Longrightarrow>
   attempts_from fetch maxRetries lastError = (Inl (Some message), [Fetch maxRetries])"
  by (simp add: attempts_from.simps [of fetch maxRetries] attempts_from.simps [of fetch "Suc maxRetries"])

text \<open>
  Claim C5. When the first two attempts get a 500 response and the third succeeds,
  \<^verbatim>\<open>request\<close> returns the data of the third response after three attempts and two waits:
  1000 ms times the attempt number, that is 1000 ms and then 2000 ms, each longer than
  the one before.
\<close>

theorem retry_twice_then_success:
  "fetch 1 = Responds r1 \<and> status r1 = 500 \<and> text_body r1 = Inr t1
   \<and> fetch 2 = Responds r2 \<and> status r2 = 500 \<and> text_body r2 = Inr t2
   \<and> fetch 3 = Responds r3 \<and> response_ok r3 \<and> json_body r3 = Inr data
   \<longrightarrow> request fetch
         = (Inr data, [Fetch 1, Wait (retryDelay * 1), Fetch 2, Wait (retryDelay * 2), Fetch 3])
       \<and> length (fetches (snd (request fetch))) \<le> 3
       \<and> waits (snd (request fetch)) = [1000, 2000]
       \<and> sorted_wrt (<) (waits (snd (request fetch)))"
proof (intro impI, elim conjE)
  assume a: "fetch 1 = Responds r1" "status r1 = 500" "text_body r1 = Inr t1"
    "fetch 2 = Responds r2" "status r2 = 500" "text_body r2 = Inr t2"
    "fetch 3 = Responds r3" "response_ok r3" "json_body r3 = Inr data"
  let ?e = "''Server error - please try again later''"
  have e1: "attempt_result (fetch 1) = Inl ?e" and e2: "attempt_result (fetch 2) = Inl ?e"
    and e3: "attempt_result (fetch 3) = Inr data"
    unfolding a(1,4,7)
    using attempt_result_500 [OF a(2,3)] attempt_result_500 [OF a(5,6)] attempt_result_ok [OF a(8)] a(9)
    by simp_all
  have 3: "attempts_from fetch 3 (Some ?e) = (Inr data, [Fetch 3])"
    by (rule attempts_from_returns [of 3 fetch, OF _ e3]) (simp add: maxRetries_def)
  have "attempts_from fetch 2 (Some ?e)
          = apsnd (\<lambda>tr. Fetch 2 # Wait (retryDelay * 2) # tr) (attempts_from fetch (2 + 1) (Some ?e))"
    by (rule attempts_from_retries [of 2 fetch, OF _ e2 no_retry_500]) (simp add: maxRetries_def)
  also have "(2::nat) + 1 = 3" by simp
  finally have 2: "attempts_from fetch 2 (Some ?e)
          = (Inr data, [Fetch 2, Wait (retryDelay * 2), Fetch 3])"
    unfolding 3 by simp
  have "attempts_from fetch 1 None
          = apsnd (\<lambda>tr. Fetch 1 # Wait (retryDelay * 1) # tr) (attempts_from fetch (1 + 1) (Some ?e))"
    by (rule attempts_from_retries [of 1 fetch, OF _ e1 no_retry_500]) (simp add: maxRetries_def)
  also have "(1::nat) + 1 = 2" by simp
  finally have 1: "attempts_from fetch 1 None
          = (Inr data, [Fetch 1, Wait (retryDelay * 1), Fetch 2, Wait (retryDelay * 2), Fetch 3])"
    unfolding 2 by simp
  have r: "request fetch
         = (Inr data, [Fetch 1, Wait (retryDelay * 1), Fetch 2, Wait (retryDelay * 2), Fetch 3])"
    unfolding request_def 1 by simp
  show "request fetch
         = (Inr data, [Fetch 1, Wait (retryDelay * 1), Fetch 2, Wait (retryDelay * 2), Fetch 3])
       \<and> length (fetches (snd (request fetch))) \<le> 3
       \<and> waits (snd (request fetch)) = [1000, 2000]
       \<and> sorted_wrt (<) (waits (snd (request fetch)))"
    unfolding r by (simp add: fetches_def waits_def retryDelay_def)
qed


theorem retry_twice_then_success_witness:
  "request (\<lambda>n. if n < 3 then Responds server_error else Responds transcribed)
     = (Inr (Obj [(''success'', Bool True)]), [Fetch 1, Wait 1000, Fetch 2, Wait 2000, Fetch 3])"
  using retry_twice_then_success
    [where fetch = "\<lambda>n. if n < 3 then Responds server_error else Responds transcribed"
       and ?r1.0 = server_error and ?r2.0 = server_error and ?r3.0 = transcribed
       and ?t1.0 = "''Internal Server Error''" and ?t2.0 = "''Internal Server Error''"
       and data = "Obj [(''success'', Bool True)]"]
  by (simp add: server_error_def transcribed_def response_ok_def retryDelay_def)

lemma fetches_Cons [simp]:
  "fetches (Fetch n # tr) = n # fetches tr" "fetches (Wait d # tr) = fetches tr" "fetches [] = []"
  by (simp_all add: fetches_def)

lemma attempts_from_until_break:
  assumes "k \<le> maxRetries"
    "\<forall>j. a \<le> j \<and> j < k \<longrightarrow> (\<exists>m. attempt_result (fetch j) = Inl m \<and> \<not> no_retry m)"
    "attempt_result (fetch k) = Inl message" "no_retry message" "a \<le> k"
  shows "fst (attempts_from fetch a lastError) = Inl (Some message)
         \<and> fetches (snd (attempts_from fetch a lastError)) = [a..<Suc k]"
  using assms(2,5)
proof (induction "k - a" arbitrary: a lastError)
  case 0
  then have "a = k" by simp
  then show ?case
    using attempts_from_breaks [of k fetch message lastError] assms(1,3,4) by simp
next
  case (Suc n)
  then have lt: "a < k" by simp
  then obtain m where m: "attempt_result (fetch a) = Inl m" "\<not> no_retry m"
    using Suc.prems(1) by auto
  have "a < maxRetries" using lt assms(1) by simp
  from attempts_from_retries [of a fetch, OF this m, of lastError]
  have step: "attempts_from fetch a lastError
     = apsnd (\<lambda>tr. Fetch a # Wait (retryDelay * a) # tr) (attempts_from fetch (a + 1) (Some m))" .
  have ih: "fst (attempts_from fetch (a + 1) (Some m)) = Inl (Some message)
         \<and> fetches (snd (attempts_from fetch (a + 1) (Some m))) = [a + 1..<Suc k]"
    using Suc.hyps(1) [of "a + 1" "Some m"] Suc.hyps(2) Suc.prems lt by auto
  show ?case unfolding step using ih lt by (simp add: upt_conv_Cons)
qed


lemma errorMessage_404:
  "errorMessage (Some ''API endpoint not found - please check the server configuration'')
     = ''API endpoint not found - please check the server configuration''"
  by (simp add: errorMessage_def)

lemma errorMessage_413:
  "errorMessage (Some ''Audio file too large - please record a shorter message'')
     = ''Audio file too large - please record a shorter message''"
  by (simp add: errorMessage_def)

lemma request_404:
  assumes "fetch 1 = Responds r" "status r = 404" "text_body r = Inr t"
  shows "request fetch
           = (Inl ''API endpoint not found - please check the server configuration'', [Fetch 1])"
proof -
  have "attempt_result (fetch 1)
          = Inl ''API endpoint not found - please check the server configuration''"
    unfolding assms(1) by (rule attempt_result_404 [OF assms(2,3)])
  from attempts_from_breaks [of 1 fetch, OF _ this no_retry_404, of None]
  have "attempts_from fetch 1 None
          = (Inl (Some ''API endpoint not found - please check the server configuration''),
             [Fetch 1])"
    by (simp add: maxRetries_def)
  then show ?thesis unfolding request_def by (simp add: errorMessage_404)
qed

lemma request_413_retried:
  assumes "fetch 1 = Responds r" "status r = 413" "text_body r = Inr t"
  shows "\<exists>tr. snd (request fetch) = Fetch 1 # Wait 1000 # Fetch 2 # tr"
proof -
  let ?e = "''Audio file too large - please record a shorter message''"
  have e1: "attempt_result (fetch 1) = Inl ?e"
    unfolding assms(1) by (rule attempt_result_413 [OF assms(2,3)])
  have "attempts_from fetch 1 None
          = apsnd (\<lambda>tr. Fetch 1 # Wait (retryDelay * 1) # tr) (attempts_from fetch (1 + 1) (Some ?e))"
    by (rule attempts_from_retries [of 1 fetch, OF _ e1 no_retry_413]) (simp add: maxRetries_def)
  also have "(1::nat) + 1 = 2" by simp
  finally have 1: "attempts_from fetch 1 None
          = apsnd (\<lambda>tr. Fetch 1 # Wait (retryDelay * 1) # tr) (attempts_from fetch 2 (Some ?e))" .
  have 2: "\<exists>x tr. attempts_from fetch 2 (Some ?e) = (x, Fetch 2 # tr)"
    by (subst attempts_from.simps) (auto simp: maxRetries_def split: sum.splits prod.splits
          simp: apsnd_def map_prod_def)
  then obtain x tr where "attempts_from fetch 2 (Some ?e) = (x, Fetch 2 # tr)" by blast
  then have "snd (attempts_from fetch 1 None) = Fetch 1 # Wait 1000 # Fetch 2 # tr"
    unfolding 1 by (simp add: retryDelay_def)
  then show ?thesis unfolding request_def by (auto split: prod.splits sum.splits)
qed

text \<open>
  Claim C6, as amended. An error that the code classes as not to be retried (its message
  contains ``abort'', ``signal is aborted'', ``Network error'' or ``API endpoint not
  found'') ends the loop at the attempt where it occurs, also before the three attempts
  are used up, and its message decides the error thrown. A 404 response at the first
  attempt gives the error after that single attempt. A 413 response is not in that
  class: after it the code waits 1000 ms and fetches again.
\<close>

theorem non_retryable_ends_loop:
  "(1 \<le> k \<and> k \<le> maxRetries
      \<and> (\<forall>j. 1 \<le> j \<and> j < k \<longrightarrow> (\<exists>m. attempt_result (fetch j) = Inl m \<and> \<not> no_retry m))
      \<and> attempt_result (fetch k) = Inl message \<and> no_retry message
    \<longrightarrow> fst (request fetch) = Inl (errorMessage (Some message))
        \<and> fetches (snd (request fetch)) = [1..<Suc k])
   \<and> (fetch 1 = Responds r \<and> status r = 404 \<and> text_body r = Inr t
    \<longrightarrow> request fetch
          = (Inl ''API endpoint not found - please check the server configuration'', [Fetch 1]))
   \<and> (fetch 1 = Responds r \<and> status r = 413 \<and> text_body r = Inr t
    \<longrightarrow> (\<exists>tr. snd (request fetch) = Fetch 1 # Wait 1000 # Fetch 2 # tr))"
proof (intro conjI impI)
  assume a: "1 \<le> k \<and> k \<le> maxRetries
      \<and> (\<forall>j. 1 \<le> j \<and> j < k \<longrightarrow> (\<exists>m. attempt_result (fetch j) = Inl m \<and> \<not> no_retry m))
      \<and> attempt_result (fetch k) = Inl message \<and> no_retry message"
  then have b: "fst (attempts_from fetch 1 None) = Inl (Some message)
         \<and> fetches (snd (attempts_from fetch 1 None)) = [1..<Suc k]"
    using attempts_from_until_break [of k 1 fetch message None] by blast
  show "fst (request fetch) = Inl (errorMessage (Some message))"
    using b unfolding request_def by (auto split: prod.splits sum.splits)
  show "fetches (snd (request fetch)) = [1..<Suc k]"
    using b unfolding request_def by (auto split: prod.splits sum.splits)
next
  assume "fetch 1 = Responds r \<and> status r = 404 \<and> text_body r = Inr t"
  then show "request fetch
          = (Inl ''API endpoint not found - please check the server configuration'', [Fetch 1])"
    using request_404 by blast
next
  assume "fetch 1 = Responds r \<and> status r = 413 \<and> text_body r = Inr t"
  then show "\<exists>tr. snd (request fetch) = Fetch 1 # Wait 1000 # Fetch 2 # tr"
    using request_413_retried by blast
qed


text \<open>Against claim C6 as stated (a 413 response is terminal and never retried): an
  endpoint that always answers 413 is fetched three times, with both waits.\<close>

theorem payload_too_large_is_retried:
  "request always_too_large
     = (Inl ''Audio file too large - please record a shorter message'',
        [Fetch 1, Wait 1000, Fetch 2, Wait 2000, Fetch 3])
   \<and> fetches (snd (request always_too_large)) \<noteq> [1]"
proof -
  let ?f = always_too_large
  let ?e = "''Audio file too large - please record a shorter message''"
  have e: "\<And>n. attempt_result (?f n) = Inl ?e"
    unfolding always_too_large_def
    by (rule attempt_result_413 [of _ "''Payload Too Large''"]) (simp_all add: payload_too_large_def)
  have 3: "attempts_from ?f 3 (Some ?e) = (Inl (Some ?e), [Fetch 3])"
    using attempts_from_last [of ?f ?e "Some ?e", OF e no_retry_413] by (simp add: maxRetries_def)
  have "attempts_from ?f 2 (Some ?e)
          = apsnd (\<lambda>tr. Fetch 2 # Wait (retryDelay * 2) # tr) (attempts_from ?f (2 + 1) (Some ?e))"
    by (rule attempts_from_retries [of 2 ?f, OF _ e no_retry_413]) (simp add: maxRetries_def)
  also have "(2::nat) + 1 = 3" by simp
  finally have 2: "attempts_from ?f 2 (Some ?e)
          = (Inl (Some ?e), [Fetch 2, Wait (retryDelay * 2), Fetch 3])"
    unfolding 3 by simp
  have "attempts_from ?f 1 None
          = apsnd (\<lambda>tr. Fetch 1 # Wait (retryDelay * 1) # tr) (attempts_from ?f (1 + 1) (Some ?e))"
    by (rule attempts_from_retries [of 1 ?f, OF _ e no_retry_413]) (simp add: maxRetries_def)
  also have "(1::nat) + 1 = 2" by simp
  finally have 1: "attempts_from ?f 1 None
          = (Inl (Some ?e), [Fetch 1, Wait (retryDelay * 1), Fetch 2, Wait (retryDelay * 2), Fetch 3])"
    unfolding 2 by simp
  have r: "request ?f = (Inl ?e, [Fetch 1, Wait 1000, Fetch 2, Wait 2000, Fetch 3])"
    unfolding request_def 1 by (simp add: errorMessage_413 retryDelay_def)
  show ?thesis unfolding r by simp
qed

theorem non_retryable_ends_loop_witness:
  "fst (request error_then_not_found)
     = Inl ''API endpoint not found - please check the server configuration''
   \<and> fetches (snd (request error_then_not_found)) = [1, 2]
   \<and> request (\<lambda>n. Responds not_found)
       = (Inl ''API endpoint not found - please check the server configuration'', [Fetch 1])
   \<and> (\<exists>tr. snd (request (\<lambda>n. Responds payload_too_large))
              = Fetch 1 # Wait 1000 # Fetch 2 # tr)"
proof -
  let ?nf = "''API endpoint not found - please check the server configuration''"
  have 1: "attempt_result (error_then_not_found 1) = Inl ''Server error - please try again later''"
    unfolding error_then_not_found_def
    using attempt_result_500 [of server_error "''Internal Server Error''"]
    by (simp add: server_error_def)
  have 2: "attempt_result (error_then_not_found 2) = Inl ?nf"
    unfolding error_then_not_found_def
    using attempt_result_404 [of not_found "''Not Found''"]
    by (simp add: not_found_def)
  have b: "\<forall>j. 1 \<le> j \<and> j < 2 \<longrightarrow>
             (\<exists>m. attempt_result (error_then_not_found j) = Inl m \<and> \<not> no_retry m)"
  proof (intro allI impI)
    fix j :: nat assume "1 \<le> j \<and> j < 2"
    then have "j = 1" by simp
    then show "\<exists>m. attempt_result (error_then_not_found j) = Inl m \<and> \<not> no_retry m"
      using 1 no_retry_500 by blast
  qed
  have A: "fst (request error_then_not_found) = Inl (errorMessage (Some ?nf))
           \<and> fetches (snd (request error_then_not_found)) = [1..<Suc 2]"
    using non_retryable_ends_loop
      [where k = 2 and fetch = error_then_not_found and message = ?nf]
      b 2 no_retry_404
    by (simp add: maxRetries_def)
  have B: "request (\<lambda>n. Responds not_found) = (Inl ?nf, [Fetch 1])"
    using non_retryable_ends_loop
      [where fetch = "\<lambda>n. Responds not_found" and r = not_found and t = "''Not Found''"]
    by (simp add: not_found_def)
  have C: "\<exists>tr. snd (request (\<lambda>n. Responds payload_too_large))
              = Fetch 1 # Wait 1000 # Fetch 2 # tr"
    using non_retryable_ends_loop
      [where fetch = "\<lambda>n. Responds payload_too_large" and r = payload_too_large
         and t = "''Payload Too Large''"]
    by (simp add: payload_too_large_def)
  have u: "[1..<Suc 2] = [1, 2]" by (simp add: upt_conv_Cons)
  show ?thesis using A B C unfolding u errorMessage_404 by simp
qed

section \<open>The recorder\<close>

lemma onstop_completed:
  "completed (onstop mimeType now callback_error s)
     = completed s @ [\<lparr> blob_size = sum_list (audioChunksRef s), blob_type = mimeType,
                        duration_ms = now - startTimeRef s, timestamp = now,
                        format = format_of mimeType \<rparr>]"
  by (simp add: onstop_def Let_def split: option.splits)

lemma onstop_reported:
  "reported (onstop mimeType now None s) = reported s"
  by (simp add: onstop_def Let_def split: option.splits)

text \<open>
  Claim C4, as amended. When a capture session stops, the recorder calls the success
  callback with the recording, whatever the chunk buffer holds: with an empty buffer the
  payload of the recording has size 0. The error callback is not called when the success
  callback returns.
\<close>

theorem onstop_always_completes:
  "completed (onstop mimeType now callback_error s)
     = completed s @ [\<lparr> blob_size = sum_list (audioChunksRef s), blob_type = mimeType,
                        duration_ms = now - startTimeRef s, timestamp = now,
                        format = format_of mimeType \<rparr>]
   \<and> reported (onstop mimeType now None s) = reported s
   \<and> (audioChunksRef s = [] \<longrightarrow>
        blob_size (last (completed (onstop mimeType now callback_error s))) = 0)"
  by (simp add: onstop_completed onstop_reported)

lemma chrome_started:
  "startRecording chrome 1000 mounted
     = mounted\<lparr> isRecording := True, mediaRecorderRef := Some ''audio/webm;codecs=opus'',
                startTimeRef := 1000, durationIntervalRef := Some 1, streamRef := Some 0,
                live_streams := [0], intervals := [1], next_id := 2 \<rparr>"
  by (simp add: startRecording_def chrome_def mounted_def getSupportedMimeType_def mime_types_def)

text \<open>Against claim C4 as stated (an empty buffer is reported through the error path,
  never as a success of size 0): a session that is started and stopped before any data
  arrives ends with one call of the success callback, of size 0, and no call of the
  error callback.\<close>

theorem empty_recording_completes:
  "completed (stop_session 0 1500 None (startRecording chrome 1000 mounted))
     = [\<lparr> blob_size = 0, blob_type = ''audio/webm;codecs=opus'', duration_ms = 500,
          timestamp = 1500, format = ''webm'' \<rparr>]
   \<and> reported (stop_session 0 1500 None (startRecording chrome 1000 mounted)) = []"
  unfolding chrome_started
  by (simp add: stop_session_def stopRecording_def ondataavailable_def onstop_def mounted_def
        format_of_def)

theorem onstop_always_completes_witness:
  "blob_size (last (completed (stop_session 0 1500 None (startRecording chrome 1000 mounted)))) = 0
   \<and> reported (stop_session 0 1500 None (startRecording chrome 1000 mounted)) = []"
  using onstop_always_completes
    [where mimeType = "''audio/webm;codecs=opus''" and now = 1500 and callback_error = None
       and s = "ondataavailable 0 (stopRecording (startRecording chrome 1000 mounted))"]
  unfolding chrome_started
  by (simp add: stop_session_def stopRecording_def ondataavailable_def mounted_def)


lemma start_failed_keeps:
  "live_streams (start_failed e s) = live_streams s"
  "intervals (start_failed e s) = intervals s"
  "reported (start_failed e s) \<noteq> reported s"
  by (simp_all add: start_failed_def Let_def)

text \<open>
  Claim C7 says that every exit path of a capture session stops the tracks of the
  acquired stream and clears the duration timer. What the code does when
  \<^verbatim>\<open>startRecording\<close> fails after \<^verbatim>\<open>getUserMedia\<close> has resolved (\<^verbatim>\<open>MediaRecorder\<close> is
  missing, its constructor rejects the type, or \<^verbatim>\<open>start\<close> throws): the error is reported,
  and the stream just acquired stays live.
\<close>

theorem start_failure_leaves_stream:
  "\<not> (isIOSSafari b \<and> \<not> isSecureContext b) \<and> getUserMedia_error b = None
   \<and> (\<not> has_MediaRecorder b \<or> \<not> isTypeSupported b (getSupportedMimeType b)
        \<or> start_error b \<noteq> None)
   \<longrightarrow> live_streams (startRecording b now s) = live_streams s @ [next_id s]
       \<and> reported (startRecording b now s) \<noteq> reported s
       \<and> isRecording (startRecording b now s) = isRecording s"
  by (auto simp: startRecording_def Let_def start_failed_def split: option.splits)

theorem start_failure_leaves_stream_witness:
  "live_streams (startRecording no_recorder_types 1000 mounted) = [0]
   \<and> reported (startRecording no_recorder_types 1000 mounted)
       = [''Recording not supported in this browser. Please try a different browser.'']
   \<and> isRecording (startRecording no_recorder_types 1000 mounted) = False"
  using start_failure_leaves_stream [where b = no_recorder_types and now = 1000 and s = mounted]
  by (simp add: no_recorder_types_def mounted_def startRecording_def start_failed_def
        getSupportedMimeType_def mime_types_def Let_def)

text \<open>The other exit paths. A stop whose callback returns releases the stream and the
  interval of the session; this is also the path of the stop at the maximum duration.\<close>

lemma stop_releases:
  assumes "\<not> (isIOSSafari b \<and> \<not> isSecureContext b)" "getUserMedia_error b = None"
    "has_MediaRecorder b" "isTypeSupported b (getSupportedMimeType b)" "start_error b = None"
  shows "live_streams (stop_session last_chunk now' None (startRecording b now mounted)) = []
         \<and> intervals (stop_session last_chunk now' None (startRecording b now mounted)) = []"
  using assms
  by (auto simp: startRecording_def Let_def mounted_def stop_session_def stopRecording_def
        ondataavailable_def onstop_def)

lemma auto_stop_stops:
  "isRecording s \<Longrightarrow> mediaRecorderRef s \<noteq> None \<Longrightarrow> now - startTimeRef s \<ge> maxDuration * 1000 \<Longrightarrow>
   \<not> isRecording (auto_stop maxDuration (tick now s))"
  by (simp add: auto_stop_def tick_def stopRecording_def)

text \<open>A stop whose callback throws, and an error event, release nothing.\<close>

lemma onstop_callback_throws:
  "live_streams (onstop mimeType now (Some message) s) = live_streams s
   \<and> intervals (onstop mimeType now (Some message) s) = intervals s"
  by (simp add: onstop_def Let_def)

lemma onerror_releases_nothing:
  "live_streams (onerror message s) = live_streams s \<and> intervals (onerror message s) = intervals s"
  by (simp add: onerror_def Let_def)


end
